theory Spec2Isabelle
  imports Main
begin

section \<open>Python values and dictionaries\<close>

text \<open>
  Property values are Python objects. The modelled code only tests them with
  \<^verbatim>\<open>is None\<close>, \<^verbatim>\<open>!= ''\<close>, truthiness and as dictionary keys. Python's
  \<^verbatim>\<open>bool\<close> is a subclass of \<^verbatim>\<open>int\<close> with \<^verbatim>\<open>True == 1\<close> and
  \<^verbatim>\<open>False == 0\<close> (equal and hashed alike), so the booleans are \<open>PInt 1\<close> and
  \<open>PInt 0\<close>.
\<close>

datatype pyval = PNone | PInt int | PStr string

abbreviation PTrue :: pyval where "PTrue \<equiv> PInt 1"
abbreviation PFalse :: pyval where "PFalse \<equiv> PInt 0"

fun truthy :: "pyval \<Rightarrow> bool" where
  "truthy PNone = False"
| "truthy (PInt i) = (i \<noteq> 0)"
| "truthy (PStr s) = (s \<noteq> [])"

type_synonym props = "string \<rightharpoonup> pyval"

text \<open>\<^verbatim>\<open>key in d\<close> and \<^verbatim>\<open>d.get(key, default)\<close>.\<close>

definition has_key :: "('k \<rightharpoonup> 'v) \<Rightarrow> 'k \<Rightarrow> bool" where
  "has_key d k = (d k \<noteq> None)"

definition dict_get :: "('k \<rightharpoonup> 'v) \<Rightarrow> 'k \<Rightarrow> 'v \<Rightarrow> 'v" where
  "dict_get d k dflt = (case d k of None \<Rightarrow> dflt | Some v \<Rightarrow> v)"

section \<open>Geometry as the code consumes it\<close>

text \<open>
  A shapely geometry is opaque. \<^verbatim>\<open>feature.py\<close> reads three members of it:
  \<^verbatim>\<open>geom_type\<close>, \<^verbatim>\<open>centroid\<close> and \<^verbatim>\<open>contains(point)\<close>; a geometry is
  the record of these three, over an arbitrary type \<open>'p\<close> of points.
\<close>

record 'p geometry =
  geom_type :: string
  centroid :: 'p
  contains :: "'p \<Rightarrow> bool"

section \<open>Feature\<close>

record 'p feature =
  feature_id :: int
  geometry :: "'p geometry"
  properties :: props
  has_children :: bool

text \<open>\<^verbatim>\<open>Feature.__init__\<close>: the properties are copied and two reserved keys are set.\<close>

definition Feature :: "int \<Rightarrow> 'p geometry \<Rightarrow> props \<Rightarrow> bool \<Rightarrow> 'p feature" where
  "Feature fid g ps hc =
     \<lparr>feature_id = fid, geometry = g,
      properties = ps(''featureId'' \<mapsto> PInt fid, ''geometry'' \<mapsto> PStr (geom_type g)),
      has_children = hc\<rparr>"

definition get_property :: "'p feature \<Rightarrow> string \<Rightarrow> pyval \<Rightarrow> pyval" where
  "get_property f property dflt = dict_get (properties f) property dflt"

text \<open>The accessors \<^verbatim>\<open>id\<close> and \<^verbatim>\<open>models\<close> are \<^verbatim>\<open>properties.get(...)\<close>, None when absent.\<close>

definition id_p :: "'p feature \<Rightarrow> pyval" where
  "id_p f = dict_get (properties f) ''id'' PNone"

definition models :: "'p feature \<Rightarrow> pyval" where
  "models f = dict_get (properties f) ''models'' PNone"

definition visible :: "'p feature \<Rightarrow> bool" where
  "visible f = (\<not> truthy (get_property f ''invisible'' PNone))"

text \<open>\<^verbatim>\<open>del_property\<close> pops the key when present; the feature is returned updated.\<close>

definition del_property :: "'p feature \<Rightarrow> string \<Rightarrow> 'p feature" where
  "del_property f property =
     (if has_key (properties f) property
      then f\<lparr>properties := (properties f)(property := None)\<rparr>
      else f)"

definition has_property :: "'p feature \<Rightarrow> string \<Rightarrow> bool" where
  "has_property f property = (dict_get (properties f) property (PStr '''') \<noteq> PStr '''')"

definition set_property :: "'p feature \<Rightarrow> string \<Rightarrow> pyval \<Rightarrow> 'p feature" where
  "set_property f property v =
     (if v = PNone then del_property f property
      else f\<lparr>properties := (properties f)(property \<mapsto> v)\<rparr>)"

section \<open>FeatureMap\<close>

text \<open>
  The two \<^verbatim>\<open>defaultdict(list)\<close> members are maps to lists: reading them with
  \<^verbatim>\<open>.get(key, [])\<close> gives the empty list for a missing key, and
  \<^verbatim>\<open>d[key].append(x)\<close> creates a missing entry.
\<close>

record 'p feature_map =
  class_to_features :: "pyval \<rightharpoonup> 'p feature list"
  id_to_feature :: "pyval \<rightharpoonup> 'p feature"
  model_to_features :: "pyval \<rightharpoonup> 'p feature list"
  unknown_anatomy :: "(pyval \<times> pyval list) list"

definition FeatureMap :: "'p feature_map" where
  "FeatureMap = \<lparr>class_to_features = Map.empty, id_to_feature = Map.empty,
                  model_to_features = Map.empty, unknown_anatomy = []\<rparr>"

definition dict_append :: "('k \<rightharpoonup> 'v list) \<Rightarrow> 'k \<Rightarrow> 'v \<Rightarrow> ('k \<rightharpoonup> 'v list)" where
  "dict_append d k x = d(k \<mapsto> dict_get d k [] @ [x])"

definition add_feature :: "'p feature_map \<Rightarrow> 'p feature \<Rightarrow> 'p feature_map" where
  "add_feature fm f =
     (let fm1 = (if id_p f \<noteq> PNone
                 then fm\<lparr>id_to_feature := (id_to_feature fm)(id_p f \<mapsto> f)\<rparr>
                 else fm);
          fm2 = (if has_property f ''class''
                 then fm1\<lparr>class_to_features :=
                        dict_append (class_to_features fm1) (get_property f ''class'' PNone) f\<rparr>
                 else fm1)
      in (if models f \<noteq> PNone
          then fm2\<lparr>model_to_features := dict_append (model_to_features fm2) (models f) f\<rparr>
          else fm2))"

definition duplicate_id :: "'p feature_map \<Rightarrow> pyval \<Rightarrow> bool" where
  "duplicate_id fm i = (id_to_feature fm i \<noteq> None)"

definition features :: "'p feature_map \<Rightarrow> pyval \<Rightarrow> 'p feature list" where
  "features fm i =
     (case id_to_feature fm i of
        None \<Rightarrow> dict_get (class_to_features fm) i []
      | Some f \<Rightarrow> [f])"

definition feature_ids :: "'p feature_map \<Rightarrow> pyval list \<Rightarrow> int list" where
  "feature_ids fm ids = concat (map (\<lambda>i. map feature_id (features fm i)) ids)"

subsection \<open>Anatomical resolution\<close>

text \<open>
  The two inner loops of \<^verbatim>\<open>find_features_by_anatomical_id\<close>: for every feature of the
  layer, for every candidate, the candidate is appended when the layer feature's geometry
  contains the candidate's centroid.
\<close>

definition included_features :: "'p feature list \<Rightarrow> 'p feature list \<Rightarrow> 'p feature list" where
  "included_features layer_features fs =
     concat (map (\<lambda>layer_feature.
                    filter (\<lambda>f. contains (geometry layer_feature) (centroid (geometry f))) fs)
                 layer_features)"

text \<open>
  The loop over the layers. The last argument is the variable
  \<^verbatim>\<open>anatomical_features\<close>, assigned in every iteration; \<^verbatim>\<open>break\<close> leaves the loop
  when the list just computed has one element.
\<close>

fun layers_loop ::
  "'p feature_map \<Rightarrow> 'p feature list \<Rightarrow> pyval list \<Rightarrow> 'p feature list \<Rightarrow> 'p feature list" where
  "layers_loop fm fs [] anatomical_features = anatomical_features"
| "layers_loop fm fs (anatomical_layer # rest) anatomical_features =
     (let included = included_features (dict_get (model_to_features fm) anatomical_layer []) fs
      in if length included = 1 then included else layers_loop fm fs rest included)"

text \<open>\<^verbatim>\<open>log.error\<close> is called with one of two messages.\<close>

datatype log_message = Cannot_find pyval | Cannot_find_in_layers pyval "pyval list"

text \<open>
  The result is the returned list, the messages logged by the call and the updated map.
  The loop runs only for a non-empty list of layers, so its initial
  \<^verbatim>\<open>anatomical_features\<close> is never read.
\<close>

definition find_features_by_anatomical_id ::
  "'p feature_map \<Rightarrow> pyval \<Rightarrow> pyval list
     \<Rightarrow> 'p feature list \<times> log_message list \<times> 'p feature_map" where
  "find_features_by_anatomical_id fm anatomical_id anatomical_layers =
     (let anatomical_features =
            (if length anatomical_layers = 0
             then dict_get (model_to_features fm) anatomical_id []
             else layers_loop fm (dict_get (model_to_features fm) anatomical_id [])
                    anatomical_layers [])
      in if length anatomical_features = 0
         then (if (anatomical_id, anatomical_layers) \<notin> set (unknown_anatomy fm)
               then (anatomical_features,
                     [if length anatomical_layers = 0 then Cannot_find anatomical_id
                      else Cannot_find_in_layers anatomical_id anatomical_layers],
                     fm\<lparr>unknown_anatomy :=
                          unknown_anatomy fm @ [(anatomical_id, anatomical_layers)]\<rparr>)
               else (anatomical_features, [], fm))
         else (anatomical_features, [], fm))"


subsection \<open>A build: calls on one FeatureMap, and the caller's list objects\<close>








text \<open>The match list of one layer: the list the loop body computes for that layer.\<close>

definition layer_matches :: "'p feature_map \<Rightarrow> pyval \<Rightarrow> pyval \<Rightarrow> 'p feature list" where
  "layer_matches fm anatomical_id anatomical_layer =
     included_features (dict_get (model_to_features fm) anatomical_layer [])
       (dict_get (model_to_features fm) anatomical_id [])"

section \<open>PowerpointLayer: reducing a tree of shapes\<close>

text \<open>
  A shape has a geometry and a dictionary of properties. A \<^verbatim>\<open>TreeList\<close> is a list whose
  elements are shapes or nested TreeLists.
\<close>

record 'p shape =
  shape_geometry :: "'p geometry"
  shape_properties :: props

datatype 'p shape_tree = Leaf "'p shape" | TreeList "'p shape_tree list"

text \<open>
  \<^verbatim>\<open>check_markup_errors\<close> (of the source), \<^verbatim>\<open>new_feature\<close> (of the flatmap),
  \<^verbatim>\<open>add_features\<close> (of MapLayer) and the constant \<^verbatim>\<open>FEATURES_TILE_LAYER\<close> are
  defined outside the files at hand. They are parameters, acting on a state \<open>'s\<close> that
  stands for the source, the flatmap and the layer; \<^verbatim>\<open>check_markup_errors\<close> may change
  the dictionary it is given.
\<close>

record ('p, 's) layer_env =
  check_markup_errors :: "'s \<Rightarrow> props \<Rightarrow> props \<times> 's"
  new_feature :: "'s \<Rightarrow> 'p geometry \<Rightarrow> props \<Rightarrow> 'p feature \<times> 's"
  add_features :: "'s \<Rightarrow> string \<Rightarrow> 'p feature list \<Rightarrow> 'p feature option \<times> 's"
  FEATURES_TILE_LAYER :: pyval

text \<open>
  The \<^verbatim>\<open>else\<close> branch of the loop body, for a shape that is not a TreeList. The
  dictionary \<^verbatim>\<open>shape.properties\<close> is changed in place, so the shape is returned too.
\<close>

definition process_leaf ::
  "('p, 's) layer_env \<Rightarrow> 's \<Rightarrow> 'p shape \<Rightarrow> 'p feature list
     \<Rightarrow> 'p feature list \<times> 'p shape \<times> 's" where
  "process_leaf E st shape fs =
     (let (properties1, st1) = check_markup_errors E st (shape_properties shape);
          properties2 = (if \<not> has_key properties1 ''tile-layer''
                         then properties1(''tile-layer'' \<mapsto> FEATURES_TILE_LAYER E)
                         else properties1);
          shape' = shape\<lparr>shape_properties := properties2\<rparr>
      in if has_key properties2 ''error'' then (fs, shape', st1)
         else if has_key properties2 ''invisible'' then (fs, shape', st1)
         else if has_key properties2 ''path'' then (fs, shape', st1)
         else if truthy (dict_get properties2 ''exclude'' PFalse) then (fs, shape', st1)
         else (let (feature, st2) = new_feature E st1 (shape_geometry shape) properties2
               in (fs @ [feature], shape', st2)))"

text \<open>
  \<^verbatim>\<open>__process_shape_list\<close> and its loop over \<^verbatim>\<open>shapes[1:]\<close>, with the list
  \<^verbatim>\<open>features\<close> as the loop's last argument. The result is the list of features, the
  shapes as the call leaves them, and the state.
\<close>

function process_shape_list ::
    "('p, 's) layer_env \<Rightarrow> 's \<Rightarrow> 'p shape_tree list
       \<Rightarrow> 'p feature list \<times> 'p shape_tree list \<times> 's"
  and for_shapes ::
    "('p, 's) layer_env \<Rightarrow> 's \<Rightarrow> 'p shape_tree list \<Rightarrow> 'p feature list
       \<Rightarrow> 'p feature list \<times> 'p shape_tree list \<times> 's"
where
  "process_shape_list E st shapes =
     (let (fs, rest', st') = for_shapes E st (drop 1 shapes) []
      in (fs, take 1 shapes @ rest', st'))"
| "for_shapes E st [] fs = (fs, [], st)"
| "for_shapes E st (TreeList shape # rest) fs =
     (let (group_features, shape', st1) = process_shape_list E st shape;
          (grouped_feature, st2) = add_features E st1 ''Group'' group_features;
          fs1 = (case grouped_feature of None \<Rightarrow> fs | Some g \<Rightarrow> fs @ [g]);
          (fs2, rest', st3) = for_shapes E st2 rest fs1
      in (fs2, TreeList shape' # rest', st3))"
| "for_shapes E st (Leaf shape # rest) fs =
     (let (fs1, shape', st1) = process_leaf E st shape fs;
          (fs2, rest', st2) = for_shapes E st1 rest fs1
      in (fs2, Leaf shape' # rest', st2))"
  by pat_completeness auto
termination
proof (relation "measure (\<lambda>x. case x of
          Inl (E, st, shapes) \<Rightarrow> 2 * size_list size shapes + 1
        | Inr (E, st, shapes, fs) \<Rightarrow> 2 * size_list size shapes)", goal_cases)
  case (2 E st shapes)
  then show ?case by (cases shapes) simp_all
qed simp_all

text \<open>
  The drop conditions of a leaf, on the properties as validation leaves them, and the
  properties with the tile layer defaulted.
\<close>

definition dropped :: "props \<Rightarrow> bool" where
  "dropped ps = (has_key ps ''error'' \<or> has_key ps ''invisible'' \<or> has_key ps ''path''
                  \<or> truthy (dict_get ps ''exclude'' PFalse))"

definition with_tile_layer :: "('p, 's) layer_env \<Rightarrow> props \<Rightarrow> props" where
  "with_tile_layer E ps =
     (case ps ''tile-layer'' of None \<Rightarrow> ps(''tile-layer'' \<mapsto> FEATURES_TILE_LAYER E)
      | Some v \<Rightarrow> ps)"

text \<open>
  Whether a leaf is kept in a given state, and the feature \<^verbatim>\<open>new_feature\<close> makes of a
  kept leaf there, with the state it leaves.
\<close>

definition kept :: "('p, 's) layer_env \<Rightarrow> 's \<Rightarrow> 'p shape \<Rightarrow> bool" where
  "kept E st shape = (\<not> dropped (fst (check_markup_errors E st (shape_properties shape))))"

definition leaf_feature :: "('p, 's) layer_env \<Rightarrow> 's \<Rightarrow> 'p shape \<Rightarrow> 'p feature \<times> 's" where
  "leaf_feature E st shape =
     (let (ps, st1) = check_markup_errors E st (shape_properties shape)
      in new_feature E st1 (shape_geometry shape) (with_tile_layer E ps))"

definition leaf_after :: "('p, 's) layer_env \<Rightarrow> 's \<Rightarrow> 'p shape \<Rightarrow> 'p shape" where
  "leaf_after E st shape =
     shape\<lparr>shape_properties :=
       with_tile_layer E (fst (check_markup_errors E st (shape_properties shape)))\<rparr>"

section \<open>Example data\<close>

text \<open>Points on a line; a geometry is an open interval with its midpoint as centroid.\<close>

definition interval :: "int \<Rightarrow> int \<Rightarrow> int geometry" where
  "interval lo hi = \<lparr>geom_type = ''Polygon'', centroid = (lo + hi) div 2,
                      contains = (\<lambda>p. lo < p \<and> p < hi)\<rparr>"

text \<open>
  An environment whose state is the last feature id given out and the list of calls made
  to \<^verbatim>\<open>add_features\<close> (name and number of features offered). Validation changes nothing;
  \<open>agg\<close> says for which lists \<^verbatim>\<open>add_features\<close> makes a group feature.
\<close>

definition example_env ::
  "(int feature list \<Rightarrow> bool) \<Rightarrow> (int, int \<times> (string \<times> nat) list) layer_env" where
  "example_env agg =
     \<lparr>check_markup_errors = (\<lambda>st ps. (ps, st)),
      new_feature = (\<lambda>st g ps. (Feature (fst st + 1) g ps False, (fst st + 1, snd st))),
      add_features = (\<lambda>st name fs.
         if agg fs
         then (Some (Feature (fst st + 1) (interval 0 0) [''group'' \<mapsto> PTrue] True),
               (fst st + 1, snd st @ [(name, length fs)]))
         else (None, (fst st, snd st @ [(name, length fs)]))),
      FEATURES_TILE_LAYER = PStr ''features''\<rparr>"

definition example_shape :: "int \<Rightarrow> int \<Rightarrow> props \<Rightarrow> int shape" where
  "example_shape lo hi ps = \<lparr>shape_geometry = interval lo hi, shape_properties = ps\<rparr>"

text \<open>
  A small map: two features modelling X (centroids 2 and 6), a container for each of the
  layers A and B, and two overlapping containers for the layer C.
\<close>

definition example_feature :: "int \<Rightarrow> int \<Rightarrow> int \<Rightarrow> props \<Rightarrow> int feature" where
  "example_feature n lo hi ps = Feature n (interval lo hi) ps False"

definition example_features :: "int feature list" where
  "example_features =
     [example_feature 1 1 3 [''models'' \<mapsto> PStr ''X'', ''id'' \<mapsto> PStr ''x1''],
      example_feature 2 5 7 [''models'' \<mapsto> PStr ''X''],
      example_feature 3 0 10 [''models'' \<mapsto> PStr ''A''],
      example_feature 4 4 8 [''models'' \<mapsto> PStr ''B''],
      example_feature 5 0 4 [''models'' \<mapsto> PStr ''C''],
      example_feature 6 1 5 [''models'' \<mapsto> PStr ''C'', ''id'' \<mapsto> PStr ''c2'']]"

definition example_map :: "int feature_map" where
  "example_map = foldl add_feature FeatureMap example_features"




text \<open>
  A slide: the shape list starts with the shape of the group itself, then three leaves.
  A second slide holds a group whose only child is excluded.
\<close>

definition example_header :: "int shape_tree" where
  "example_header = Leaf (example_shape 0 100 [''shape-type'' \<mapsto> PStr ''group''])"

definition example_excluded :: "int shape" where
  "example_excluded = example_shape 2 4 [''exclude'' \<mapsto> PTrue]"

definition example_leaves :: "int shape list" where
  "example_leaves = [example_shape 1 3 Map.empty,
                     example_shape 5 7 [''id'' \<mapsto> PStr ''b''],
                     example_shape 0 10 [''tile-layer'' \<mapsto> PStr ''base'']]"

definition example_slide :: "int shape_tree list" where
  "example_slide = example_header # map Leaf example_leaves"

definition example_group_slide :: "int shape_tree list" where
  "example_group_slide = [example_header, TreeList [example_header, Leaf example_excluded]]"

text \<open>
  A slide with a nested list between two leaves.
\<close>

definition example_nested_slide :: "int shape_tree list" where
  "example_nested_slide =
     [example_header, Leaf (example_leaves ! 0),
      TreeList [example_header, Leaf (example_leaves ! 1), Leaf (example_leaves ! 2)],
      Leaf (example_leaves ! 0)]"

section \<open>The examples, evaluated\<close>

lemmas example_shape_defs = example_env_def example_shape_def example_header_def
  example_excluded_def example_leaves_def example_slide_def example_group_slide_def
  interval_def Feature_def

lemmas leaf_defs = process_leaf_def kept_def dropped_def leaf_feature_def leaf_after_def
  with_tile_layer_def has_key_def dict_get_def Let_def

lemmas example_defs = example_map_def example_features_def example_feature_def Feature_def
  interval_def FeatureMap_def add_feature_def id_p_def models_def has_property_def
  get_property_def dict_get_def dict_append_def Let_def

lemma example_map_models:
  "dict_get (model_to_features example_map) k [] =
     (if k = PStr ''X'' then [example_features ! 0, example_features ! 1]
      else if k = PStr ''A'' then [example_features ! 2]
      else if k = PStr ''B'' then [example_features ! 3]
      else if k = PStr ''C'' then [example_features ! 4, example_features ! 5]
      else [])"
  by (simp add: example_defs)

lemma example_matches:
  "layer_matches example_map (PStr ''X'') (PStr ''A'') = [example_features ! 0, example_features ! 1]"
  "layer_matches example_map (PStr ''X'') (PStr ''B'') = [example_features ! 1]"
  "layer_matches example_map (PStr ''X'') (PStr ''C'') = [example_features ! 0, example_features ! 0]"
  "layer_matches example_map (PStr ''X'') (PStr ''D'') = []"
  by (simp_all add: layer_matches_def example_map_models included_features_def)
     (simp_all add: example_features_def example_feature_def Feature_def interval_def)

section \<open>Properties of Feature\<close>

text \<open>
  C4 (amended): \<^verbatim>\<open>set_property(k, None)\<close> is \<^verbatim>\<open>del_property(k)\<close>: the key is
  removed and \<^verbatim>\<open>has_property(k)\<close> is false afterwards. The empty string is not None:
  \<^verbatim>\<open>set_property(k, '')\<close> stores it, the key stays in the dictionary and
  \<^verbatim>\<open>get_property(k)\<close> returns the empty string whatever the default, although
  \<^verbatim>\<open>has_property(k)\<close> is false.
\<close>

theorem set_property_none_deletes:
  "set_property f k PNone = del_property f k
   \<and> properties (set_property f k PNone) = (properties f)(k := None)
   \<and> \<not> has_key (properties (set_property f k PNone)) k
   \<and> \<not> has_property (set_property f k PNone) k
   \<and> properties (set_property f k (PStr '''')) = (properties f)(k \<mapsto> PStr '''')
   \<and> has_key (properties (set_property f k (PStr ''''))) k
   \<and> get_property (set_property f k (PStr '''')) k d = PStr ''''
   \<and> \<not> has_property (set_property f k (PStr '''')) k"
  by (auto simp: set_property_def del_property_def has_key_def has_property_def
      get_property_def dict_get_def)

text \<open>
  C4 as stated fails for the empty string: after \<^verbatim>\<open>set_property('id', '')\<close> the key
  \<^verbatim>\<open>id\<close> is still present with the empty string as its value, where deleting it
  leaves no entry, and \<^verbatim>\<open>get_property('id')\<close> tells the two apart.
\<close>

theorem set_property_empty_string_counterexample:
  "properties (set_property (example_features ! 0) ''id'' (PStr '''')) ''id'' = Some (PStr '''')
   \<and> properties (del_property (example_features ! 0) ''id'') ''id'' = None
   \<and> get_property (set_property (example_features ! 0) ''id'' (PStr '''')) ''id'' PNone
        \<noteq> get_property (del_property (example_features ! 0) ''id'') ''id'' PNone"
  by (simp add: set_property_def del_property_def has_key_def example_defs)

section \<open>Properties of FeatureMap\<close>

subsection \<open>Lookup by id or class\<close>

lemma id_to_feature_add_feature:
  "id_to_feature (add_feature fm f) =
     (if id_p f \<noteq> PNone then (id_to_feature fm)(id_p f \<mapsto> f) else id_to_feature fm)"
  by (simp add: add_feature_def Let_def)

lemma id_to_feature_foldl:
  "\<forall>g \<in> set later. id_p g \<noteq> k \<Longrightarrow>
     id_to_feature (foldl add_feature fm later) k = id_to_feature fm k"
  by (induction later arbitrary: fm) (auto simp: id_to_feature_add_feature)

text \<open>
  C5: \<^verbatim>\<open>features(s)\<close> is the one-element list of the \<^verbatim>\<open>id_to_feature\<close> entry when
  \<open>s\<close> is a key there, and the \<^verbatim>\<open>class_to_features\<close> list of \<open>s\<close> otherwise (empty
  when absent). A feature added with a non-empty id is the answer of \<^verbatim>\<open>features\<close> for its
  id right after the call, and after any later calls of \<^verbatim>\<open>add_feature\<close> for features with
  other ids.
\<close>

theorem features_by_id_or_class:
  "features fm (PStr s) =
     (case id_to_feature fm (PStr s) of
        Some f \<Rightarrow> [f]
      | None \<Rightarrow> (case class_to_features fm (PStr s) of None \<Rightarrow> [] | Some fs \<Rightarrow> fs))
   \<and> (id_p f = PStr s \<and> s \<noteq> [] \<and> (\<forall>g \<in> set later. id_p g \<noteq> id_p f)
      \<longrightarrow> features (add_feature fm f) (PStr s) = [f]
        \<and> features (foldl add_feature (add_feature fm f) later) (PStr s) = [f])"
  by (auto simp: features_def dict_get_def id_to_feature_foldl id_to_feature_add_feature
      split: option.splits)

theorem features_by_id_or_class_witness:
  "id_p (example_features ! 0) = PStr ''x1'' \<and> ''x1'' \<noteq> []
   \<and> id_p (example_features ! 1) \<noteq> id_p (example_features ! 0)
   \<and> id_p (example_features ! 5) \<noteq> id_p (example_features ! 0)
   \<and> features (foldl add_feature (add_feature FeatureMap (example_features ! 0))
                 [example_features ! 1, example_features ! 5]) (PStr ''x1'')
       = [example_features ! 0]"
  using features_by_id_or_class[of FeatureMap "''x1''" "example_features ! 0"
      "[example_features ! 1, example_features ! 5]"]
  by (simp add: example_features_def example_feature_def Feature_def id_p_def dict_get_def)

subsection \<open>Anatomical resolution\<close>

lemma layers_loop_nonempty_acc:
  "ls \<noteq> [] \<Longrightarrow> layers_loop fm fs ls a = layers_loop fm fs ls b"
  by (cases ls) (simp_all add: Let_def)

lemma layers_loop_find:
  "layers_loop fm (dict_get (model_to_features fm) a []) ls acc =
     (case List.find (\<lambda>l. length (layer_matches fm a l) = 1) ls of
        Some l \<Rightarrow> layer_matches fm a l
      | None \<Rightarrow> (if ls = [] then acc else layer_matches fm a (last ls)))"
  by (induction ls arbitrary: acc) (auto simp: Let_def layer_matches_def split: option.splits)

lemma set_included_features:
  "set (included_features cs fs) =
     {f \<in> set fs. \<exists>c \<in> set cs. contains (geometry c) (centroid (geometry f))}"
  by (auto simp: included_features_def)

lemma count_list_filter: "count_list (filter P xs) x = (if P x then count_list xs x else 0)"
  by (induction xs) auto

lemma count_list_included:
  "count_list (included_features cs fs) f =
     length (filter (\<lambda>c. contains (geometry c) (centroid (geometry f))) cs) * count_list fs f"
  by (induction cs) (auto simp: included_features_def count_list_filter)

lemma filter_only_match:
  "count_list fs f = 1 \<Longrightarrow> \<forall>g \<in> set fs. g \<noteq> f \<longrightarrow> \<not> Q g
     \<Longrightarrow> filter Q fs = (if Q f then [f] else [])"
proof (induction fs)
  case Nil
  then show ?case by simp
next
  case (Cons x xs)
  show ?case
  proof (cases "x = f")
    case True
    with Cons.prems have "count_list xs f = 0" by simp
    then have "f \<notin> set xs" by (simp add: count_list_0_iff)
    with Cons.prems have "filter Q xs = []" by (auto simp: filter_empty_conv)
    with True show ?thesis by simp
  next
    case False
    with Cons show ?thesis by auto
  qed
qed

lemma included_only_match:
  assumes "count_list fs f = 1"
    and "\<forall>g \<in> set fs. g \<noteq> f \<longrightarrow> (\<forall>c \<in> set cs. \<not> contains (geometry c) (centroid (geometry g)))"
  shows "included_features cs fs =
           replicate (length (filter (\<lambda>c. contains (geometry c) (centroid (geometry f))) cs)) f"
  using assms(2)
proof (induction cs)
  case Nil
  then show ?case by (simp add: included_features_def)
next
  case (Cons c cs)
  have "filter (\<lambda>g. contains (geometry c) (centroid (geometry g))) fs =
          (if contains (geometry c) (centroid (geometry f)) then [f] else [])"
    using assms(1) Cons.prems by (intro filter_only_match) auto
  moreover have "included_features cs fs =
           replicate (length (filter (\<lambda>c. contains (geometry c) (centroid (geometry f))) cs)) f"
    using Cons by auto
  ultimately show ?case by (simp add: included_features_def)
qed

lemma find_features_skip_layer:
  "length (layer_matches fm a l) \<noteq> 1 \<Longrightarrow> rest \<noteq> [] \<Longrightarrow>
     fst (find_features_by_anatomical_id fm a (l # rest)) =
     fst (find_features_by_anatomical_id fm a rest)"
  using layers_loop_nonempty_acc[of rest fm "dict_get (model_to_features fm) a []" "layer_matches fm a l" "[]"]
  by (simp add: find_features_by_anatomical_id_def Let_def layer_matches_def)

lemma find_features_single_layer:
  "fst (find_features_by_anatomical_id fm a [l]) = layer_matches fm a l"
  by (simp add: find_features_by_anatomical_id_def Let_def layer_matches_def)

text \<open>
  C1: for a non-empty list of layers the call returns the match list of the first layer,
  in the order given, whose match list has exactly one element, whatever the layers after
  it are; when there is no such layer it returns the match list of the last layer. The
  match list of a layer holds the candidates (the \<^verbatim>\<open>model_to_features\<close> entry of the
  identifier) whose centroid some feature of the layer contains.
\<close>

theorem find_features_first_unique_layer:
  "anatomical_layers \<noteq> [] \<longrightarrow>
     fst (find_features_by_anatomical_id fm anatomical_id anatomical_layers) =
       (case List.find (\<lambda>l. length (layer_matches fm anatomical_id l) = 1) anatomical_layers of
          Some l \<Rightarrow> layer_matches fm anatomical_id l
        | None \<Rightarrow> layer_matches fm anatomical_id (last anatomical_layers))
     \<and> (\<forall>l. set (layer_matches fm anatomical_id l) =
            {f \<in> set (dict_get (model_to_features fm) anatomical_id []).
               \<exists>c \<in> set (dict_get (model_to_features fm) l []).
                 contains (geometry c) (centroid (geometry f))})"
  by (auto simp: find_features_by_anatomical_id_def Let_def layers_loop_find
        layer_matches_def set_included_features split: option.splits)

theorem find_features_first_unique_layer_witness:
  "[PStr ''A'', PStr ''B''] \<noteq> []
   \<and> length (layer_matches example_map (PStr ''X'') (PStr ''A'')) = 2
   \<and> fst (find_features_by_anatomical_id example_map (PStr ''X'') [PStr ''A'', PStr ''B''])
       = [example_features ! 1]
   \<and> fst (find_features_by_anatomical_id example_map (PStr ''X'') [PStr ''A'', PStr ''C''])
       = [example_features ! 0, example_features ! 0]"
  using find_features_first_unique_layer[of "[PStr ''A'', PStr ''B'']" example_map "PStr ''X''"]
    find_features_first_unique_layer[of "[PStr ''A'', PStr ''C'']" example_map "PStr ''X''"]
  by (simp add: example_matches)

text \<open>
  C2: with an empty list of candidate layers the call returns exactly the
  \<^verbatim>\<open>model_to_features\<close> entry of the identifier, the empty list when the identifier is
  absent, and no containment test is made.
\<close>

theorem find_features_no_layers:
  "fst (find_features_by_anatomical_id fm anatomical_id []) =
     (case model_to_features fm anatomical_id of None \<Rightarrow> [] | Some fs \<Rightarrow> fs)"
  by (simp add: find_features_by_anatomical_id_def dict_get_def Let_def)

text \<open>
  C10: a candidate occurs in the match list of a layer once for every feature of the layer
  that contains its centroid (times its occurrences among the candidates). So when exactly
  one candidate matches in a layer, and two features of the layer contain its centroid,
  the match list is that candidate twice: its length is 2, the loop goes on to the layers
  that follow, and as the answer of the call the list has a duplicate.
\<close>

theorem included_features_multiplicity:
  "count_list (included_features layer_features fs) f =
     length (filter (\<lambda>c. contains (geometry c) (centroid (geometry f))) layer_features)
       * count_list fs f
   \<and> (count_list (dict_get (model_to_features fm) anatomical_id []) f = 1
        \<and> (\<forall>g \<in> set (dict_get (model_to_features fm) anatomical_id []). g \<noteq> f \<longrightarrow>
              (\<forall>c \<in> set (dict_get (model_to_features fm) l []).
                 \<not> contains (geometry c) (centroid (geometry g))))
        \<and> length (filter (\<lambda>c. contains (geometry c) (centroid (geometry f)))
                     (dict_get (model_to_features fm) l [])) = 2
      \<longrightarrow> layer_matches fm anatomical_id l = [f, f]
          \<and> fst (find_features_by_anatomical_id fm anatomical_id [l]) = [f, f]
          \<and> \<not> distinct (fst (find_features_by_anatomical_id fm anatomical_id [l]))
          \<and> (rest \<noteq> [] \<longrightarrow>
                fst (find_features_by_anatomical_id fm anatomical_id (l # rest)) =
                fst (find_features_by_anatomical_id fm anatomical_id rest)))"
proof (intro conjI impI)
  show "count_list (included_features layer_features fs) f =
     length (filter (\<lambda>c. contains (geometry c) (centroid (geometry f))) layer_features)
       * count_list fs f"
    by (rule count_list_included)
next
  assume h: "count_list (dict_get (model_to_features fm) anatomical_id []) f = 1
        \<and> (\<forall>g \<in> set (dict_get (model_to_features fm) anatomical_id []). g \<noteq> f \<longrightarrow>
              (\<forall>c \<in> set (dict_get (model_to_features fm) l []).
                 \<not> contains (geometry c) (centroid (geometry g))))
        \<and> length (filter (\<lambda>c. contains (geometry c) (centroid (geometry f)))
                     (dict_get (model_to_features fm) l [])) = 2"
  have m: "layer_matches fm anatomical_id l = replicate 2 f"
    unfolding layer_matches_def using h included_only_match[of "dict_get (model_to_features fm) anatomical_id []" f "dict_get (model_to_features fm) l []"]
    by simp
  then show m2: "layer_matches fm anatomical_id l = [f, f]"
    by (simp add: numeral_2_eq_2)
  then show s: "fst (find_features_by_anatomical_id fm anatomical_id [l]) = [f, f]"
    by (simp add: find_features_single_layer)
  then show "\<not> distinct (fst (find_features_by_anatomical_id fm anatomical_id [l]))"
    by simp
  {
    assume "rest \<noteq> []"
    then show "fst (find_features_by_anatomical_id fm anatomical_id (l # rest)) =
                fst (find_features_by_anatomical_id fm anatomical_id rest)"
      using m2 by (intro find_features_skip_layer) simp_all
  }
qed

theorem included_features_multiplicity_witness:
  "count_list (dict_get (model_to_features example_map) (PStr ''X'') []) (example_features ! 0) = 1
   \<and> length (filter (\<lambda>c. contains (geometry c) (centroid (geometry (example_features ! 0))))
               (dict_get (model_to_features example_map) (PStr ''C'') [])) = 2
   \<and> fst (find_features_by_anatomical_id example_map (PStr ''X'') [PStr ''C''])
       = [example_features ! 0, example_features ! 0]
   \<and> [PStr ''B''] \<noteq> []
   \<and> fst (find_features_by_anatomical_id example_map (PStr ''X'') [PStr ''C'', PStr ''B''])
       = fst (find_features_by_anatomical_id example_map (PStr ''X'') [PStr ''B''])"
proof -
  have a: "count_list (dict_get (model_to_features example_map) (PStr ''X'') []) (example_features ! 0) = 1"
    by (simp add: example_map_models) (simp add: example_features_def example_feature_def Feature_def)
  have b: "length (filter (\<lambda>c. contains (geometry c) (centroid (geometry (example_features ! 0))))
               (dict_get (model_to_features example_map) (PStr ''C'') [])) = 2"
    by (simp add: example_map_models) (simp add: example_features_def example_feature_def Feature_def interval_def)
  have c: "\<forall>g \<in> set (dict_get (model_to_features example_map) (PStr ''X'') []).
             g \<noteq> example_features ! 0 \<longrightarrow>
              (\<forall>c \<in> set (dict_get (model_to_features example_map) (PStr ''C'') []).
                 \<not> contains (geometry c) (centroid (geometry g)))"
    by (simp add: example_map_models) (simp add: example_features_def example_feature_def Feature_def interval_def)
  from included_features_multiplicity[of "[]" "[]" "example_features ! 0" example_map "PStr ''X''"
      "PStr ''C''" "[PStr ''B'']"] a b c
  show ?thesis by simp
qed

subsection \<open>Logging of unknown anatomy\<close>




















section \<open>Properties of the reduction of a shape tree\<close>

subsection \<open>One step of the loop\<close>

lemma has_key_with_tile_layer:
  "k \<noteq> ''tile-layer'' \<Longrightarrow> has_key (with_tile_layer E ps) k = has_key ps k"
  by (simp add: with_tile_layer_def has_key_def split: option.splits)

lemma dropped_with_tile_layer: "dropped (with_tile_layer E ps) = dropped ps"
  by (simp add: dropped_def has_key_with_tile_layer)
     (simp add: with_tile_layer_def dict_get_def split: option.splits)

lemma process_leaf_cases:
  "process_leaf E st shape fs =
     (if kept E st shape
      then (fs @ [fst (leaf_feature E st shape)], leaf_after E st shape,
            snd (leaf_feature E st shape))
      else (fs, leaf_after E st shape, snd (check_markup_errors E st (shape_properties shape))))"
proof -
  obtain ps st1 where c: "check_markup_errors E st (shape_properties shape) = (ps, st1)"
    by (metis surj_pair)
  have w: "(if \<not> has_key ps ''tile-layer'' then ps(''tile-layer'' \<mapsto> FEATURES_TILE_LAYER E) else ps)
             = with_tile_layer E ps"
    by (simp add: with_tile_layer_def has_key_def split: option.splits)
  have d: "dropped (with_tile_layer E ps) = dropped ps" by (rule dropped_with_tile_layer)
  show ?thesis
    unfolding process_leaf_def c w Let_def split_conv kept_def leaf_feature_def leaf_after_def
    using d by (auto simp: dropped_def split_def)
qed

lemma process_leaf_acc:
  "process_leaf E st shape fs =
     (fs @ fst (process_leaf E st shape []), snd (process_leaf E st shape []))"
  by (simp add: process_leaf_cases)

lemma for_shapes_acc:
  "for_shapes E st shapes fs =
     (fs @ fst (for_shapes E st shapes []), snd (for_shapes E st shapes []))"
proof (induction shapes arbitrary: st fs)
  case Nil
  then show ?case by simp
next
  case (Cons n shapes)
  show ?case
  proof (cases n)
    case (Leaf s)
    define a where "a = fst (process_leaf E st s [])"
    define s' where "s' = fst (snd (process_leaf E st s []))"
    define st1 where "st1 = snd (snd (process_leaf E st s []))"
    have p0: "process_leaf E st s [] = (a, s', st1)" by (simp add: a_def s'_def st1_def)
    have p: "process_leaf E st s fs = (fs @ a, s', st1)"
      by (subst process_leaf_acc) (simp add: p0)
    have A: "for_shapes E st1 shapes (fs @ a) =
               (fs @ a @ fst (for_shapes E st1 shapes []), snd (for_shapes E st1 shapes []))"
      using Cons.IH[of st1 "fs @ a"] by simp
    have B: "for_shapes E st1 shapes a =
               (a @ fst (for_shapes E st1 shapes []), snd (for_shapes E st1 shapes []))"
      using Cons.IH[of st1 a] by simp
    show ?thesis
      unfolding Leaf for_shapes.simps p p0 Let_def split_conv A B
      by (simp add: split_def)
  next
    case (TreeList g)
    obtain gf g' st1 where r: "process_shape_list E st g = (gf, g', st1)"
      by (metis prod_cases3)
    obtain grouped st2 where ad: "add_features E st1 ''Group'' gf = (grouped, st2)"
      by (metis surj_pair)
    define a where "a = (case grouped of None \<Rightarrow> [] | Some x \<Rightarrow> [x])"
    have c1: "(case grouped of None \<Rightarrow> fs | Some x \<Rightarrow> fs @ [x]) = fs @ a"
      by (simp add: a_def split: option.splits)
    have c2: "(case grouped of None \<Rightarrow> [] | Some x \<Rightarrow> [] @ [x]) = a"
      by (simp add: a_def split: option.splits)
    have A: "for_shapes E st2 rest (fs @ a) =
               (fs @ a @ fst (for_shapes E st2 rest []), snd (for_shapes E st2 rest []))"
      if "rest = shapes" for rest
      using Cons.IH[of st2 "fs @ a"] that by simp
    have B: "for_shapes E st2 rest a =
               (a @ fst (for_shapes E st2 rest []), snd (for_shapes E st2 rest []))"
      if "rest = shapes" for rest
      using Cons.IH[of st2 a] that by simp
    show ?thesis
      unfolding TreeList for_shapes.simps r ad Let_def split_conv c1 c2 A[OF refl] B[OF refl]
      by (simp add: split_def)
  qed
qed

lemma for_shapes_append:
  "for_shapes E st (xs @ ys) fs =
     (let (fs1, xs', st1) = for_shapes E st xs fs;
          (fs2, ys', st2) = for_shapes E st1 ys fs1
      in (fs2, xs' @ ys', st2))"
proof (induction xs arbitrary: st fs)
  case Nil
  then show ?case by (simp add: split_def)
next
  case (Cons n xs)
  show ?case
  proof (cases n)
    case (Leaf s)
    show ?thesis
      by (simp add: Leaf Cons.IH split_def Let_def)
  next
    case (TreeList g)
    show ?thesis
      by (simp add: TreeList Cons.IH split_def Let_def)
  qed
qed

lemma process_shape_list_Cons:
  "process_shape_list E st (x # xs) =
     (let (fs, xs', st') = for_shapes E st xs [] in (fs, x # xs', st'))"
  by simp

lemma for_shapes_Leaf_kept:
  assumes "kept E st s"
  shows "for_shapes E st (Leaf s # rest) fs =
     (fs @ fst (leaf_feature E st s) # fst (for_shapes E (snd (leaf_feature E st s)) rest []),
      Leaf (leaf_after E st s) # fst (snd (for_shapes E (snd (leaf_feature E st s)) rest [])),
      snd (snd (for_shapes E (snd (leaf_feature E st s)) rest [])))"
  using assms
    for_shapes_acc[of E "snd (leaf_feature E st s)" rest "fs @ [fst (leaf_feature E st s)]"]
  by (simp add: process_leaf_cases split_def)

lemma for_shapes_Leaf_dropped:
  assumes "\<not> kept E st s"
  shows "for_shapes E st (Leaf s # rest) fs =
     (fs @ fst (for_shapes E (snd (check_markup_errors E st (shape_properties s))) rest []),
      Leaf (leaf_after E st s)
        # fst (snd (for_shapes E (snd (check_markup_errors E st (shape_properties s))) rest [])),
      snd (snd (for_shapes E (snd (check_markup_errors E st (shape_properties s))) rest [])))"
  using assms
    for_shapes_acc[of E "snd (check_markup_errors E st (shape_properties s))" rest fs]
  by (simp add: process_leaf_cases split_def)

lemma for_shapes_TreeList:
  assumes "process_shape_list E st g = (gf, g', st1)"
    and "add_features E st1 ''Group'' gf = (grouped, st2)"
  shows "for_shapes E st (TreeList g # rest) fs =
     (fs @ (case grouped of None \<Rightarrow> [] | Some x \<Rightarrow> [x]) @ fst (for_shapes E st2 rest []),
      TreeList g' # fst (snd (for_shapes E st2 rest [])),
      snd (snd (for_shapes E st2 rest [])))"
proof -
  have "for_shapes E st2 rest (case grouped of None \<Rightarrow> fs | Some x \<Rightarrow> fs @ [x]) =
          ((case grouped of None \<Rightarrow> fs | Some x \<Rightarrow> fs @ [x]) @ fst (for_shapes E st2 rest []),
           snd (for_shapes E st2 rest []))"
    by (rule for_shapes_acc)
  then show ?thesis
    unfolding for_shapes.simps assms Let_def split_conv
    by (simp add: split_def split: option.splits)
qed

lemma length_for_shapes:
  "length (fst (for_shapes E st shapes [])) \<le> length shapes"
proof (induction shapes arbitrary: st)
  case Nil
  then show ?case by simp
next
  case (Cons n shapes)
  show ?case
  proof (cases n)
    case (Leaf s)
    show ?thesis
    proof (cases "kept E st s")
      case True
      show ?thesis
        unfolding Leaf for_shapes_Leaf_kept[OF True]
        using Cons.IH[of "snd (leaf_feature E st s)"] by simp
    next
      case False
      show ?thesis
        unfolding Leaf for_shapes_Leaf_dropped[OF False]
        using Cons.IH[of "snd (check_markup_errors E st (shape_properties s))"] by simp
    qed
  next
    case (TreeList g)
    obtain gf g' st1 where r: "process_shape_list E st g = (gf, g', st1)"
      by (metis prod_cases3)
    obtain grouped st2 where ad: "add_features E st1 ''Group'' gf = (grouped, st2)"
      by (metis surj_pair)
    show ?thesis
      unfolding TreeList for_shapes_TreeList[OF r ad]
      using Cons.IH[of st2] by (simp split: option.splits)
  qed
qed

lemma for_shapes_leaves_ids:
  assumes n: "\<And>st g ps. feature_id (fst (new_feature E st g ps)) = ctr st + 1
                \<and> ctr (snd (new_feature E st g ps)) = ctr st + 1"
    and c: "\<And>st ps. ctr (snd (check_markup_errors E st ps)) = ctr st"
  shows "map feature_id (fst (for_shapes E st (map Leaf ss) [])) =
           map (\<lambda>i. ctr st + 1 + int i) [0..<length (fst (for_shapes E st (map Leaf ss) []))]
         \<and> ctr (snd (snd (for_shapes E st (map Leaf ss) []))) =
             ctr st + int (length (fst (for_shapes E st (map Leaf ss) [])))"
proof (induction ss arbitrary: st)
  case Nil
  then show ?case by simp
next
  case (Cons s ss)
  show ?case
  proof (cases "kept E st s")
    case False
    define st1 where "st1 = snd (check_markup_errors E st (shape_properties s))"
    have "ctr st1 = ctr st" by (simp add: st1_def c)
    with Cons.IH[of st1] show ?thesis
      unfolding list.map for_shapes_Leaf_dropped[OF False] st1_def[symmetric] by simp
  next
    case True
    define f where "f = fst (leaf_feature E st s)"
    define st1 where "st1 = snd (leaf_feature E st s)"
    define out where "out = fst (for_shapes E st1 (map Leaf ss) [])"
    have i: "feature_id f = ctr st + 1" "ctr st1 = ctr st + 1"
      using n c by (simp_all add: f_def st1_def leaf_feature_def split_def Let_def)
    have u: "[0..<Suc (length out)] = 0 # map Suc [0..<length out]"
      by (simp add: upt_conv_Cons map_Suc_upt del: upt_Suc)
    from Cons.IH[of st1] have
      ih: "map feature_id out = map (\<lambda>i. ctr st1 + 1 + int i) [0..<length out]"
          "ctr (snd (snd (for_shapes E st1 (map Leaf ss) []))) = ctr st1 + int (length out)"
      by (simp_all add: out_def)
    show ?thesis
      unfolding list.map for_shapes_Leaf_kept[OF True] f_def[symmetric] st1_def[symmetric]
        out_def[symmetric] fst_conv snd_conv
      by (simp add: i ih u o_def add.commute add.left_commute del: upt_Suc)
  qed
qed

lemma process_shape_list_Leaf:
  "process_shape_list E st (h # Leaf s # ys) =
     (if kept E st s
      then (fst (leaf_feature E st s) # fst (process_shape_list E (snd (leaf_feature E st s)) (h # ys)),
            h # Leaf (leaf_after E st s)
              # tl (fst (snd (process_shape_list E (snd (leaf_feature E st s)) (h # ys)))),
            snd (snd (process_shape_list E (snd (leaf_feature E st s)) (h # ys))))
      else (fst (process_shape_list E (snd (check_markup_errors E st (shape_properties s))) (h # ys)),
            h # Leaf (leaf_after E st s)
              # tl (fst (snd (process_shape_list E
                     (snd (check_markup_errors E st (shape_properties s))) (h # ys)))),
            snd (snd (process_shape_list E
                     (snd (check_markup_errors E st (shape_properties s))) (h # ys)))))"
proof (cases "kept E st s")
  case True
  show ?thesis
    unfolding process_shape_list_Cons for_shapes_Leaf_kept[OF True]
    using True by (simp add: split_def Let_def)
next
  case False
  show ?thesis
    unfolding process_shape_list_Cons for_shapes_Leaf_dropped[OF False]
    using False by (simp add: split_def Let_def)
qed

lemma process_shape_list_TreeList:
  assumes "process_shape_list E st g = (children, g', st1)"
    and "add_features E st1 ''Group'' children = (grouped, st2)"
  shows "process_shape_list E st (h # TreeList g # ys) =
     ((case grouped of None \<Rightarrow> [] | Some x \<Rightarrow> [x]) @ fst (process_shape_list E st2 (h # ys)),
      h # TreeList g' # tl (fst (snd (process_shape_list E st2 (h # ys)))),
      snd (snd (process_shape_list E st2 (h # ys))))"
  unfolding process_shape_list_Cons for_shapes_TreeList[OF assms]
  by (simp add: split_def Let_def)

lemma ascending_append:
  fixes xs ys :: "int list"
  assumes "sorted_wrt (<) xs" "sorted_wrt (<) ys"
    and "\<forall>x \<in> set xs. lo < x \<and> x \<le> mid" "\<forall>y \<in> set ys. mid < y \<and> y \<le> hi"
    and "lo \<le> mid" "mid \<le> hi"
  shows "sorted_wrt (<) (xs @ ys) \<and> (\<forall>z \<in> set (xs @ ys). lo < z \<and> z \<le> hi)"
  using assms by (fastforce simp: sorted_wrt_append)

lemma for_shapes_ids_ascending:
  fixes ctr :: "'s \<Rightarrow> int"
  assumes n: "\<And>st g ps. feature_id (fst (new_feature E st g ps)) = ctr st + 1
                \<and> ctr (snd (new_feature E st g ps)) = ctr st + 1"
    and c: "\<And>st ps. ctr (snd (check_markup_errors E st ps)) = ctr st"
    and a: "\<And>st name fs. ctr st \<le> ctr (snd (add_features E st name fs))
                \<and> (\<forall>g. fst (add_features E st name fs) = Some g \<longrightarrow>
                      ctr st < feature_id g
                      \<and> feature_id g \<le> ctr (snd (add_features E st name fs)))"
  shows "ctr st \<le> ctr (snd (snd (for_shapes E st shapes [])))
           \<and> sorted_wrt (<) (map feature_id (fst (for_shapes E st shapes [])))
           \<and> (\<forall>i \<in> set (map feature_id (fst (for_shapes E st shapes []))).
                 ctr st < i \<and> i \<le> ctr (snd (snd (for_shapes E st shapes []))))"
proof (induction "size_list size shapes" arbitrary: st shapes rule: less_induct)
  case less
  show ?case
  proof (cases shapes)
    case Nil
    then show ?thesis by simp
  next
    case (Cons nd rest)
    have rest_lt: "size_list size rest < size_list size shapes" by (simp add: Cons)
    show ?thesis
    proof (cases nd)
      case (Leaf s)
      show ?thesis
      proof (cases "kept E st s")
        case True
        define st1 where "st1 = snd (leaf_feature E st s)"
        define f where "f = fst (leaf_feature E st s)"
        have i: "feature_id f = ctr st + 1" "ctr st1 = ctr st + 1"
          using n c by (simp_all add: f_def st1_def leaf_feature_def split_def Let_def)
        note ih = less[OF rest_lt, of st1]
        have "sorted_wrt (<) ([feature_id f] @ map feature_id (fst (for_shapes E st1 rest [])))
              \<and> (\<forall>z \<in> set ([feature_id f] @ map feature_id (fst (for_shapes E st1 rest []))).
                    ctr st < z \<and> z \<le> ctr (snd (snd (for_shapes E st1 rest []))))"
          using ih i by (intro ascending_append[where mid = "ctr st1"]) auto
        moreover have "ctr st \<le> ctr (snd (snd (for_shapes E st1 rest [])))"
          using ih i by simp
        ultimately show ?thesis
          unfolding Cons Leaf for_shapes_Leaf_kept[OF True] f_def[symmetric] st1_def[symmetric]
          by simp
      next
        case False
        define st1 where "st1 = snd (check_markup_errors E st (shape_properties s))"
        have i: "ctr st1 = ctr st" by (simp add: st1_def c)
        note ih = less[OF rest_lt, of st1]
        show ?thesis
          unfolding Cons Leaf for_shapes_Leaf_dropped[OF False] st1_def[symmetric]
          using ih i by simp
      qed
    next
      case (TreeList g)
      obtain gf g' st1 where r: "process_shape_list E st g = (gf, g', st1)"
        by (metis prod_cases3)
      obtain grouped st2 where ad: "add_features E st1 ''Group'' gf = (grouped, st2)"
        by (metis surj_pair)
      have "size_list size (drop 1 g) \<le> size_list size g" by (cases g) simp_all
      then have g_lt: "size_list size (drop 1 g) < size_list size shapes"
        by (simp add: Cons TreeList)
      have "st1 = snd (snd (for_shapes E st (drop 1 g) []))"
        using r by (simp add: split_def Let_def)
      with less[OF g_lt, of st] have s1: "ctr st \<le> ctr st1" by simp
      from a[of st1 "''Group''" gf] ad
      have s2: "ctr st1 \<le> ctr st2"
        and gr: "\<forall>x. grouped = Some x \<longrightarrow> ctr st1 < feature_id x \<and> feature_id x \<le> ctr st2"
        by simp_all
      define gl where "gl = (case grouped of None \<Rightarrow> [] | Some x \<Rightarrow> [x])"
      have gl: "sorted_wrt (<) (map feature_id gl)"
        "\<forall>i \<in> set (map feature_id gl). ctr st < i \<and> i \<le> ctr st2"
        using gr s1 by (auto simp: gl_def split: option.splits)
      note ih = less[OF rest_lt, of st2]
      have "sorted_wrt (<) (map feature_id gl @ map feature_id (fst (for_shapes E st2 rest [])))
              \<and> (\<forall>z \<in> set (map feature_id gl @ map feature_id (fst (for_shapes E st2 rest []))).
                    ctr st < z \<and> z \<le> ctr (snd (snd (for_shapes E st2 rest []))))"
        using ih gl s1 s2 by (intro ascending_append[where mid = "ctr st2"]) auto
      moreover have "ctr st \<le> ctr (snd (snd (for_shapes E st2 rest [])))"
        using ih s1 s2 by simp
      ultimately show ?thesis
        unfolding Cons TreeList for_shapes_TreeList[OF r ad] gl_def[symmetric]
        by simp
    qed
  qed
qed

lemma example_kept:
  "kept (example_env agg) st (example_leaves ! 0)"
  "kept (example_env agg) st (example_leaves ! 1)"
  "kept (example_env agg) st (example_leaves ! 2)"
  by (simp_all add: kept_def dropped_def has_key_def dict_get_def example_shape_defs)

lemma example_leaf_feature:
  "leaf_feature (example_env agg) (n, cs) (example_leaves ! 0) =
     (Feature (n + 1) (interval 1 3) [''tile-layer'' \<mapsto> PStr ''features''] False, (n + 1, cs))"
  "leaf_feature (example_env agg) (n, cs) (example_leaves ! 1) =
     (Feature (n + 1) (interval 5 7)
        [''id'' \<mapsto> PStr ''b'', ''tile-layer'' \<mapsto> PStr ''features''] False, (n + 1, cs))"
  "leaf_feature (example_env agg) (n, cs) (example_leaves ! 2) =
     (Feature (n + 1) (interval 0 10) [''tile-layer'' \<mapsto> PStr ''base''] False, (n + 1, cs))"
  by (simp_all add: leaf_feature_def with_tile_layer_def example_env_def example_leaves_def
      example_shape_def)

lemma example_group_children:
  "process_shape_list (example_env agg) (0, []) [example_header, Leaf example_excluded] =
     ([],
      [example_header,
       Leaf (example_excluded\<lparr>shape_properties :=
               (shape_properties example_excluded)(''tile-layer'' \<mapsto> PStr ''features'')\<rparr>)],
      (0, []))"
  by (simp add: example_shape_defs leaf_defs)

lemma example_nested_children:
  "process_shape_list (example_env (\<lambda>fs. True)) (1, [])
     [example_header, Leaf (example_leaves ! 1), Leaf (example_leaves ! 2)] =
   ([Feature 2 (interval 5 7)
       [''id'' \<mapsto> PStr ''b'', ''tile-layer'' \<mapsto> PStr ''features''] False,
     Feature 3 (interval 0 10) [''tile-layer'' \<mapsto> PStr ''base''] False],
    [example_header, Leaf (leaf_after (example_env (\<lambda>fs. True)) (1, []) (example_leaves ! 1)),
     Leaf (leaf_after (example_env (\<lambda>fs. True)) (2, []) (example_leaves ! 2))],
    (3, []))"
  unfolding process_shape_list_Cons
  using example_kept[of "\<lambda>fs. True"] example_leaf_feature[of "\<lambda>fs. True"]
  by (simp add: process_leaf_cases)

lemma example_nested_group:
  "add_features (example_env (\<lambda>fs. True)) (3, []) ''Group''
     [Feature 2 (interval 5 7)
        [''id'' \<mapsto> PStr ''b'', ''tile-layer'' \<mapsto> PStr ''features''] False,
      Feature 3 (interval 0 10) [''tile-layer'' \<mapsto> PStr ''base''] False] =
   (Some (Feature 4 (interval 0 0) [''group'' \<mapsto> PTrue] True), (4, [(''Group'', 2)]))"
  by (simp add: example_env_def)

lemma example_nested_last:
  "fst (process_shape_list (example_env (\<lambda>fs. True)) (4, [(''Group'', 2)])
     [example_header, Leaf (example_leaves ! 0)]) =
   [Feature 5 (interval 1 3) [''tile-layer'' \<mapsto> PStr ''features''] False]"
  unfolding process_shape_list_Cons
  using example_kept[of "\<lambda>fs. True"] example_leaf_feature[of "\<lambda>fs. True"]
  by (simp add: process_leaf_cases)

subsection \<open>Leaves\<close>

text \<open>
  C6 (amended): for a leaf, the properties are validated and the tile layer is defaulted
  when absent, on the shape's own dictionary and whether or not the shape is dropped
  afterwards. A leaf whose validated properties hold the key \<^verbatim>\<open>error\<close>,
  \<^verbatim>\<open>invisible\<close> or \<^verbatim>\<open>path\<close>, or a true \<^verbatim>\<open>exclude\<close>, is dropped: no feature is
  made, \<^verbatim>\<open>new_feature\<close> is not called, and the loop goes on with the shapes that follow.
  For any other leaf one feature is made from its geometry and these properties, and is
  appended to the list.
\<close>

theorem process_leaf_dropped_or_kept:
  "check_markup_errors E st (shape_properties shape) = (ps, st1) \<longrightarrow>
     shape_properties (fst (snd (process_leaf E st shape fs))) = with_tile_layer E ps
     \<and> with_tile_layer E ps ''tile-layer'' =
         Some (case ps ''tile-layer'' of None \<Rightarrow> FEATURES_TILE_LAYER E | Some v \<Rightarrow> v)
     \<and> shape_geometry (fst (snd (process_leaf E st shape fs))) = shape_geometry shape
     \<and> (dropped ps \<longrightarrow>
           fst (process_leaf E st shape fs) = fs
           \<and> snd (snd (process_leaf E st shape fs)) = st1
           \<and> fst (for_shapes E st (Leaf shape # rest) fs) = fst (for_shapes E st1 rest fs)
           \<and> snd (snd (for_shapes E st (Leaf shape # rest) fs)) =
               snd (snd (for_shapes E st1 rest fs)))
     \<and> (\<not> dropped ps \<longrightarrow>
           fst (process_leaf E st shape fs) =
             fs @ [fst (new_feature E st1 (shape_geometry shape) (with_tile_layer E ps))]
           \<and> snd (snd (process_leaf E st shape fs)) =
               snd (new_feature E st1 (shape_geometry shape) (with_tile_layer E ps)))"
proof (intro impI)
  assume c: "check_markup_errors E st (shape_properties shape) = (ps, st1)"
  have k: "kept E st shape = (\<not> dropped ps)" by (simp add: kept_def c)
  have a: "leaf_after E st shape = shape\<lparr>shape_properties := with_tile_layer E ps\<rparr>"
    by (simp add: leaf_after_def c)
  have f: "leaf_feature E st shape =
             new_feature E st1 (shape_geometry shape) (with_tile_layer E ps)"
    by (simp add: leaf_feature_def c)
  have t: "with_tile_layer E ps ''tile-layer'' =
         Some (case ps ''tile-layer'' of None \<Rightarrow> FEATURES_TILE_LAYER E | Some v \<Rightarrow> v)"
    by (simp add: with_tile_layer_def split: option.splits)
  have d: "dropped ps \<Longrightarrow> for_shapes E st (Leaf shape # rest) fs =
             (fst (for_shapes E st1 rest fs),
              Leaf (leaf_after E st shape) # fst (snd (for_shapes E st1 rest fs)),
              snd (snd (for_shapes E st1 rest fs)))"
    by (simp add: process_leaf_cases k c split_def Let_def)
  show "shape_properties (fst (snd (process_leaf E st shape fs))) = with_tile_layer E ps
     \<and> with_tile_layer E ps ''tile-layer'' =
         Some (case ps ''tile-layer'' of None \<Rightarrow> FEATURES_TILE_LAYER E | Some v \<Rightarrow> v)
     \<and> shape_geometry (fst (snd (process_leaf E st shape fs))) = shape_geometry shape
     \<and> (dropped ps \<longrightarrow>
           fst (process_leaf E st shape fs) = fs
           \<and> snd (snd (process_leaf E st shape fs)) = st1
           \<and> fst (for_shapes E st (Leaf shape # rest) fs) = fst (for_shapes E st1 rest fs)
           \<and> snd (snd (for_shapes E st (Leaf shape # rest) fs)) =
               snd (snd (for_shapes E st1 rest fs)))
     \<and> (\<not> dropped ps \<longrightarrow>
           fst (process_leaf E st shape fs) =
             fs @ [fst (new_feature E st1 (shape_geometry shape) (with_tile_layer E ps))]
           \<and> snd (snd (process_leaf E st shape fs)) =
               snd (new_feature E st1 (shape_geometry shape) (with_tile_layer E ps)))"
    using t d by (simp add: process_leaf_cases k a f c)
qed

theorem process_leaf_dropped_or_kept_witness:
  "dropped (shape_properties example_excluded)
   \<and> fst (process_leaf (example_env (\<lambda>fs. False)) (0, []) example_excluded []) = []
   \<and> snd (snd (process_leaf (example_env (\<lambda>fs. False)) (0, []) example_excluded [])) = (0, [])
   \<and> \<not> dropped (shape_properties (example_leaves ! 0))
   \<and> fst (process_leaf (example_env (\<lambda>fs. False)) (0, []) (example_leaves ! 0) []) =
       [Feature 1 (interval 1 3) [''tile-layer'' \<mapsto> PStr ''features''] False]
   \<and> shape_properties (fst (snd (process_leaf (example_env (\<lambda>fs. False)) (0, [])
        (example_leaves ! 0) []))) = [''tile-layer'' \<mapsto> PStr ''features'']"
proof -
  have c1: "check_markup_errors (example_env (\<lambda>fs. False)) (0, []) (shape_properties example_excluded)
             = (shape_properties example_excluded, (0, []))"
    by (simp add: example_env_def)
  have c2: "check_markup_errors (example_env (\<lambda>fs. False)) (0, []) (shape_properties (example_leaves ! 0))
             = (shape_properties (example_leaves ! 0), (0, []))"
    by (simp add: example_env_def)
  have d1: "dropped (shape_properties example_excluded)"
    by (simp add: example_shape_defs dropped_def has_key_def dict_get_def)
  have d2: "\<not> dropped (shape_properties (example_leaves ! 0))"
    by (simp add: example_shape_defs dropped_def has_key_def dict_get_def)
  have w: "with_tile_layer (example_env (\<lambda>fs. False)) (shape_properties (example_leaves ! 0))
             = [''tile-layer'' \<mapsto> PStr ''features'']"
    by (simp add: example_shape_defs with_tile_layer_def)
  have n: "fst (new_feature (example_env (\<lambda>fs. False)) (0, []) (shape_geometry (example_leaves ! 0))
                 [''tile-layer'' \<mapsto> PStr ''features''])
             = Feature 1 (interval 1 3) [''tile-layer'' \<mapsto> PStr ''features''] False"
    by (simp add: example_env_def example_leaves_def example_shape_def)
  from process_leaf_dropped_or_kept[of "example_env (\<lambda>fs. False)" "(0, [])" example_excluded
         "shape_properties example_excluded" "(0, [])" "[]" "[]"]
       process_leaf_dropped_or_kept[of "example_env (\<lambda>fs. False)" "(0, [])" "example_leaves ! 0"
         "shape_properties (example_leaves ! 0)" "(0, [])" "[]" "[]"]
       c1 c2 d1 d2 w n
  show ?thesis by simp
qed

text \<open>
  C6 as stated fails where it says that the tile layer is defaulted only for a shape that
  passes the checks: an excluded shape without \<^verbatim>\<open>tile-layer\<close> yields no feature, and
  its dictionary holds \<^verbatim>\<open>tile-layer\<close> after the call.
\<close>

theorem tile_layer_defaulted_when_dropped_counterexample:
  "dropped (shape_properties example_excluded)
   \<and> shape_properties example_excluded ''tile-layer'' = None
   \<and> process_shape_list (example_env (\<lambda>fs. False)) (0, []) [example_header, Leaf example_excluded] =
       ([],
        [example_header,
         Leaf (example_excluded\<lparr>shape_properties :=
                 (shape_properties example_excluded)(''tile-layer'' \<mapsto> PStr ''features'')\<rparr>)],
        (0, []))"
  by (simp add: example_shape_defs leaf_defs)

subsection \<open>Order of the result\<close>

text \<open>
  C7: the reduction is depth-first and keeps the order of the input. The features of a
  shape list are those of its front part followed by those of its back part, the back
  part being processed in the state the front part leaves, and a list yields at most one
  feature for each element after the first. A leaf contributes its feature, when kept,
  before everything that follows it. A nested list is reduced where it stands: its own
  children are processed first, then \<^verbatim>\<open>add_features\<close> is called in the state they leave,
  the group feature (when there is one) takes the place of the nested list, and the
  siblings after it are processed in the state \<^verbatim>\<open>add_features\<close> leaves. Three kept
  leaves give their three features in that order. When \<^verbatim>\<open>new_feature\<close> numbers the
  features with a counter that validation leaves alone, the ids of the features of a list
  of leaves are consecutive in the order of the result; when moreover
  \<^verbatim>\<open>add_features\<close> never lowers the counter and numbers a group feature above it, the
  ids of the result of every shape list ascend, above the counter at the start.
\<close>

theorem process_shape_list_order:
  "fst (process_shape_list E st (h # xs @ ys)) =
     fst (process_shape_list E st (h # xs))
       @ fst (process_shape_list E (snd (snd (process_shape_list E st (h # xs)))) (h # ys))
   \<and> length (fst (process_shape_list E st shapes)) \<le> length shapes - 1
   \<and> fst (process_shape_list E st (h # Leaf s # zs)) =
       (if kept E st s
        then fst (leaf_feature E st s)
               # fst (process_shape_list E (snd (leaf_feature E st s)) (h # zs))
        else fst (process_shape_list E
                    (snd (check_markup_errors E st (shape_properties s))) (h # zs)))
   \<and> snd (snd (process_shape_list E st (h # Leaf s # zs))) =
       (if kept E st s
        then snd (snd (process_shape_list E (snd (leaf_feature E st s)) (h # zs)))
        else snd (snd (process_shape_list E
                    (snd (check_markup_errors E st (shape_properties s))) (h # zs))))
   \<and> (process_shape_list E st g = (children, g', sta)
        \<and> add_features E sta ''Group'' children = (grouped, stb)
      \<longrightarrow> fst (process_shape_list E st (h # TreeList g # zs)) =
            (case grouped of None \<Rightarrow> [] | Some x \<Rightarrow> [x])
              @ fst (process_shape_list E stb (h # zs))
          \<and> snd (snd (process_shape_list E st (h # TreeList g # zs))) =
              snd (snd (process_shape_list E stb (h # zs))))
   \<and> (kept E st s1 \<and> leaf_feature E st s1 = (f1, st1)
        \<and> kept E st1 s2 \<and> leaf_feature E st1 s2 = (f2, st2)
        \<and> kept E st2 s3 \<and> leaf_feature E st2 s3 = (f3, st3)
      \<longrightarrow> fst (process_shape_list E st [h, Leaf s1, Leaf s2, Leaf s3]) = [f1, f2, f3]
          \<and> snd (snd (process_shape_list E st [h, Leaf s1, Leaf s2, Leaf s3])) = st3)
   \<and> ((\<forall>st g ps. feature_id (fst (new_feature E st g ps)) = ctr st + 1
                   \<and> ctr (snd (new_feature E st g ps)) = ctr st + 1)
        \<and> (\<forall>st ps. ctr (snd (check_markup_errors E st ps)) = ctr st)
      \<longrightarrow> map feature_id (fst (process_shape_list E st (h # map Leaf ss))) =
            map (\<lambda>i. ctr st + 1 + int i)
              [0..<length (fst (process_shape_list E st (h # map Leaf ss)))])
   \<and> ((\<forall>st g ps. feature_id (fst (new_feature E st g ps)) = ctr st + 1
                   \<and> ctr (snd (new_feature E st g ps)) = ctr st + 1)
        \<and> (\<forall>st ps. ctr (snd (check_markup_errors E st ps)) = ctr st)
        \<and> (\<forall>st name fs. ctr st \<le> ctr (snd (add_features E st name fs))
              \<and> (\<forall>x. fst (add_features E st name fs) = Some x \<longrightarrow>
                    ctr st < feature_id x
                    \<and> feature_id x \<le> ctr (snd (add_features E st name fs))))
      \<longrightarrow> sorted_wrt (<) (map feature_id (fst (process_shape_list E st shapes)))
          \<and> (\<forall>i \<in> set (map feature_id (fst (process_shape_list E st shapes))).
                ctr st < i \<and> i \<le> ctr (snd (snd (process_shape_list E st shapes)))))"
proof (intro conjI impI)
  have "for_shapes E st (xs @ ys) [] =
          (fst (for_shapes E st xs [])
             @ fst (for_shapes E (snd (snd (for_shapes E st xs []))) ys []),
           fst (snd (for_shapes E st xs []))
             @ fst (snd (for_shapes E (snd (snd (for_shapes E st xs []))) ys [])),
           snd (snd (for_shapes E (snd (snd (for_shapes E st xs []))) ys [])))"
    using for_shapes_acc[of E "snd (snd (for_shapes E st xs []))" ys "fst (for_shapes E st xs [])"]
    by (simp add: for_shapes_append[of E st xs ys "[]"] split_def Let_def)
  then show "fst (process_shape_list E st (h # xs @ ys)) =
     fst (process_shape_list E st (h # xs))
       @ fst (process_shape_list E (snd (snd (process_shape_list E st (h # xs)))) (h # ys))"
    by (simp add: split_def Let_def)
next
  show "length (fst (process_shape_list E st shapes)) \<le> length shapes - 1"
    using length_for_shapes[of E st "drop 1 shapes"] by (simp add: split_def Let_def)
next
  show "fst (process_shape_list E st (h # Leaf s # zs)) =
       (if kept E st s
        then fst (leaf_feature E st s)
               # fst (process_shape_list E (snd (leaf_feature E st s)) (h # zs))
        else fst (process_shape_list E
                    (snd (check_markup_errors E st (shape_properties s))) (h # zs)))"
    unfolding process_shape_list_Leaf[of E st h s zs] by simp
next
  show "snd (snd (process_shape_list E st (h # Leaf s # zs))) =
       (if kept E st s
        then snd (snd (process_shape_list E (snd (leaf_feature E st s)) (h # zs)))
        else snd (snd (process_shape_list E
                    (snd (check_markup_errors E st (shape_properties s))) (h # zs))))"
    unfolding process_shape_list_Leaf[of E st h s zs] by simp
next
  assume h: "process_shape_list E st g = (children, g', sta)
        \<and> add_features E sta ''Group'' children = (grouped, stb)"
  then have r: "process_shape_list E st g = (children, g', sta)"
    and a: "add_features E sta ''Group'' children = (grouped, stb)" by simp_all
  show "fst (process_shape_list E st (h # TreeList g # zs)) =
            (case grouped of None \<Rightarrow> [] | Some x \<Rightarrow> [x])
              @ fst (process_shape_list E stb (h # zs))"
    unfolding process_shape_list_TreeList[OF r a] by simp
  show "snd (snd (process_shape_list E st (h # TreeList g # zs))) =
              snd (snd (process_shape_list E stb (h # zs)))"
    unfolding process_shape_list_TreeList[OF r a] by simp
next
  assume h: "kept E st s1 \<and> leaf_feature E st s1 = (f1, st1)
        \<and> kept E st1 s2 \<and> leaf_feature E st1 s2 = (f2, st2)
        \<and> kept E st2 s3 \<and> leaf_feature E st2 s3 = (f3, st3)"
  have e: "for_shapes E st [Leaf s1, Leaf s2, Leaf s3] [] =
             ([f1, f2, f3],
              [Leaf (leaf_after E st s1), Leaf (leaf_after E st1 s2), Leaf (leaf_after E st2 s3)],
              st3)"
    using h by (simp add: process_leaf_cases)
  show "fst (process_shape_list E st [h, Leaf s1, Leaf s2, Leaf s3]) = [f1, f2, f3]"
    unfolding process_shape_list_Cons e by simp
  show "snd (snd (process_shape_list E st [h, Leaf s1, Leaf s2, Leaf s3])) = st3"
    unfolding process_shape_list_Cons e by simp
next
  assume h: "(\<forall>st g ps. feature_id (fst (new_feature E st g ps)) = ctr st + 1
                   \<and> ctr (snd (new_feature E st g ps)) = ctr st + 1)
        \<and> (\<forall>st ps. ctr (snd (check_markup_errors E st ps)) = ctr st)"
  have "map feature_id (fst (for_shapes E st (map Leaf ss) [])) =
           map (\<lambda>i. ctr st + 1 + int i) [0..<length (fst (for_shapes E st (map Leaf ss) []))]"
    using for_shapes_leaves_ids[of E ctr st ss] h by blast
  then show "map feature_id (fst (process_shape_list E st (h # map Leaf ss))) =
            map (\<lambda>i. ctr st + 1 + int i)
              [0..<length (fst (process_shape_list E st (h # map Leaf ss)))]"
    by (simp add: split_def Let_def)
next
  assume h: "(\<forall>st g ps. feature_id (fst (new_feature E st g ps)) = ctr st + 1
                   \<and> ctr (snd (new_feature E st g ps)) = ctr st + 1)
        \<and> (\<forall>st ps. ctr (snd (check_markup_errors E st ps)) = ctr st)
        \<and> (\<forall>st name fs. ctr st \<le> ctr (snd (add_features E st name fs))
              \<and> (\<forall>x. fst (add_features E st name fs) = Some x \<longrightarrow>
                    ctr st < feature_id x
                    \<and> feature_id x \<le> ctr (snd (add_features E st name fs))))"
  have t: "ctr st \<le> ctr (snd (snd (for_shapes E st (drop 1 shapes) [])))
           \<and> sorted_wrt (<) (map feature_id (fst (for_shapes E st (drop 1 shapes) [])))
           \<and> (\<forall>i \<in> set (map feature_id (fst (for_shapes E st (drop 1 shapes) []))).
                 ctr st < i \<and> i \<le> ctr (snd (snd (for_shapes E st (drop 1 shapes) []))))"
    using h by (intro for_shapes_ids_ascending) blast+
  from t show "sorted_wrt (<) (map feature_id (fst (process_shape_list E st shapes)))"
    by (simp add: split_def Let_def)
  from t show "\<forall>i \<in> set (map feature_id (fst (process_shape_list E st shapes))).
                ctr st < i \<and> i \<le> ctr (snd (snd (process_shape_list E st shapes)))"
    by (simp add: split_def Let_def)
qed

theorem process_shape_list_order_witness:
  "kept (example_env (\<lambda>fs. False)) (0, []) (example_leaves ! 0)
   \<and> kept (example_env (\<lambda>fs. False)) (1, []) (example_leaves ! 1)
   \<and> kept (example_env (\<lambda>fs. False)) (2, []) (example_leaves ! 2)
   \<and> fst (process_shape_list (example_env (\<lambda>fs. False)) (0, []) example_slide) =
       [Feature 1 (interval 1 3) [''tile-layer'' \<mapsto> PStr ''features''] False,
        Feature 2 (interval 5 7)
          [''id'' \<mapsto> PStr ''b'', ''tile-layer'' \<mapsto> PStr ''features''] False,
        Feature 3 (interval 0 10) [''tile-layer'' \<mapsto> PStr ''base''] False]
   \<and> map feature_id (fst (process_shape_list (example_env (\<lambda>fs. False)) (0, []) example_slide))
       = [1, 2, 3]
   \<and> fst (process_shape_list (example_env (\<lambda>fs. True)) (1, [])
            [example_header, Leaf (example_leaves ! 1), Leaf (example_leaves ! 2)]) =
       [Feature 2 (interval 5 7)
          [''id'' \<mapsto> PStr ''b'', ''tile-layer'' \<mapsto> PStr ''features''] False,
        Feature 3 (interval 0 10) [''tile-layer'' \<mapsto> PStr ''base''] False]
   \<and> fst (process_shape_list (example_env (\<lambda>fs. True)) (0, []) example_nested_slide) =
       [Feature 1 (interval 1 3) [''tile-layer'' \<mapsto> PStr ''features''] False,
        Feature 4 (interval 0 0) [''group'' \<mapsto> PTrue] True,
        Feature 5 (interval 1 3) [''tile-layer'' \<mapsto> PStr ''features''] False]
   \<and> map feature_id (fst (process_shape_list (example_env (\<lambda>fs. True)) (0, [])
        example_nested_slide)) = [1, 4, 5]"
proof -
  let ?E = "example_env (\<lambda>fs. False)"
  let ?T = "example_env (\<lambda>fs. True)"
  let ?g = "[example_header, Leaf (example_leaves ! 1), Leaf (example_leaves ! 2)]"
  have s: "example_slide = [example_header, Leaf (example_leaves ! 0), Leaf (example_leaves ! 1),
             Leaf (example_leaves ! 2)]"
    by (simp add: example_slide_def example_leaves_def)
  have c: "(\<forall>st g ps. feature_id (fst (new_feature ?E st g ps)) = fst st + 1
                   \<and> fst (snd (new_feature ?E st g ps)) = fst st + 1)
        \<and> (\<forall>st ps. fst (snd (check_markup_errors ?E st ps)) = fst st)"
    by (simp add: example_env_def Feature_def)
  note t = process_shape_list_order[where E = ?E and st = "(0, [])" and h = example_header
      and ?s1.0 = "example_leaves ! 0" and ?st1.0 = "(1, [])"
      and ?s2.0 = "example_leaves ! 1" and ?st2.0 = "(2, [])"
      and ?s3.0 = "example_leaves ! 2" and ?st3.0 = "(3, [])"
      and ctr = fst and ss = example_leaves, folded example_slide_def]
  have f: "fst (process_shape_list ?E (0, []) example_slide) =
       [Feature 1 (interval 1 3) [''tile-layer'' \<mapsto> PStr ''features''] False,
        Feature 2 (interval 5 7)
          [''id'' \<mapsto> PStr ''b'', ''tile-layer'' \<mapsto> PStr ''features''] False,
        Feature 3 (interval 0 10) [''tile-layer'' \<mapsto> PStr ''base''] False]"
    using t example_kept[of "\<lambda>fs. False"] example_leaf_feature[of "\<lambda>fs. False"]
    unfolding s by simp
  have "map feature_id (fst (process_shape_list ?E (0, []) example_slide)) =
          map (\<lambda>i. fst (0::int, []::(string \<times> nat) list) + 1 + int i)
            [0..<length (fst (process_shape_list ?E (0, []) example_slide))]"
    using t c by blast
  then have i: "map feature_id (fst (process_shape_list ?E (0, []) example_slide)) = [1, 2, 3]"
    unfolding f by (simp add: upt_conv_Cons)
  note u = process_shape_list_order[where E = ?T and st = "(1, [])" and h = example_header
      and g = ?g and zs = "[Leaf (example_leaves ! 0)]" and sta = "(3, [])"
      and stb = "(4, [(''Group'', 2)])"
      and grouped = "Some (Feature 4 (interval 0 0) [''group'' \<mapsto> PTrue] True)"]
  have n2: "fst (process_shape_list ?T (1, [])
              [example_header, TreeList ?g, Leaf (example_leaves ! 0)]) =
            [Feature 4 (interval 0 0) [''group'' \<mapsto> PTrue] True,
             Feature 5 (interval 1 3) [''tile-layer'' \<mapsto> PStr ''features''] False]"
    using u example_nested_children example_nested_group example_nested_last by simp
  note v = process_shape_list_order[where E = ?T and st = "(0, [])" and h = example_header
      and s = "example_leaves ! 0" and zs = "[TreeList ?g, Leaf (example_leaves ! 0)]"]
  have n1: "fst (process_shape_list ?T (0, []) example_nested_slide) =
       [Feature 1 (interval 1 3) [''tile-layer'' \<mapsto> PStr ''features''] False,
        Feature 4 (interval 0 0) [''group'' \<mapsto> PTrue] True,
        Feature 5 (interval 1 3) [''tile-layer'' \<mapsto> PStr ''features''] False]"
    unfolding example_nested_slide_def
    using v example_kept(1)[of "\<lambda>fs. True" "(0, [])"]
      example_leaf_feature(1)[of "\<lambda>fs. True" 0 "[]"] n2 by simp
  have n3: "map feature_id (fst (process_shape_list ?T (0, []) example_nested_slide)) = [1, 4, 5]"
    unfolding n1 by (simp add: Feature_def)
  from f i n1 n3 example_kept[of "\<lambda>fs. False"] example_nested_children
  show ?thesis by simp
qed

subsection \<open>Groups\<close>

text \<open>
  C8 (amended): for a nested list, \<^verbatim>\<open>add_features\<close> is called with the features of its
  children whether or not there are any, and the list contributes the feature this call
  returns, or nothing when it returns None; the state after the group is the one
  \<^verbatim>\<open>add_features\<close> leaves. So a group whose children were all dropped contributes no
  feature exactly when \<^verbatim>\<open>add_features\<close> returns None for the empty list.
\<close>

theorem group_offered_to_add_features:
  "process_shape_list E st shape = (group_features, shape', st1)
     \<and> add_features E st1 ''Group'' group_features = (grouped_feature, st2)
   \<longrightarrow> for_shapes E st [TreeList shape] [] =
         ((case grouped_feature of None \<Rightarrow> [] | Some g \<Rightarrow> [g]), [TreeList shape'], st2)
       \<and> fst (for_shapes E st (TreeList shape # rest) fs) =
           fs @ (case grouped_feature of None \<Rightarrow> [] | Some g \<Rightarrow> [g])
              @ fst (for_shapes E st2 rest [])
       \<and> snd (snd (for_shapes E st (TreeList shape # rest) fs)) =
           snd (snd (for_shapes E st2 rest []))
       \<and> (grouped_feature = None \<longrightarrow>
             fst (for_shapes E st (TreeList shape # rest) fs) = fst (for_shapes E st2 rest fs))"
proof (intro impI)
  assume h: "process_shape_list E st shape = (group_features, shape', st1)
     \<and> add_features E st1 ''Group'' group_features = (grouped_feature, st2)"
  then have r: "process_shape_list E st shape = (group_features, shape', st1)"
    and a: "add_features E st1 ''Group'' group_features = (grouped_feature, st2)" by simp_all
  note t = for_shapes_TreeList[OF r a]
  have n: "fst (for_shapes E st2 rest fs) = fs @ fst (for_shapes E st2 rest [])"
    using for_shapes_acc[of E st2 rest fs] by simp
  show "for_shapes E st [TreeList shape] [] =
         ((case grouped_feature of None \<Rightarrow> [] | Some g \<Rightarrow> [g]), [TreeList shape'], st2)
       \<and> fst (for_shapes E st (TreeList shape # rest) fs) =
           fs @ (case grouped_feature of None \<Rightarrow> [] | Some g \<Rightarrow> [g])
              @ fst (for_shapes E st2 rest [])
       \<and> snd (snd (for_shapes E st (TreeList shape # rest) fs)) =
           snd (snd (for_shapes E st2 rest []))
       \<and> (grouped_feature = None \<longrightarrow>
             fst (for_shapes E st (TreeList shape # rest) fs) = fst (for_shapes E st2 rest fs))"
    unfolding t n by simp
qed

theorem group_offered_to_add_features_witness:
  "fst (process_shape_list (example_env (\<lambda>fs. False)) (0, [])
          [example_header, Leaf example_excluded]) = []
   \<and> add_features (example_env (\<lambda>fs. False)) (0, []) ''Group'' [] = (None, (0, [(''Group'', 0)]))
   \<and> fst (for_shapes (example_env (\<lambda>fs. False)) (0, [])
           (TreeList [example_header, Leaf example_excluded] # map Leaf example_leaves) []) =
       fst (for_shapes (example_env (\<lambda>fs. False)) (0, [(''Group'', 0)])
           (map Leaf example_leaves) [])"
proof -
  have a: "add_features (example_env (\<lambda>fs. False)) (0, []) ''Group'' [] = (None, (0, [(''Group'', 0)]))"
    by (simp add: example_env_def)
  from group_offered_to_add_features[of "example_env (\<lambda>fs. False)" "(0, [])"
      "[example_header, Leaf example_excluded]" "[]" _ "(0, [])" None "(0, [(''Group'', 0)])"
      "map Leaf example_leaves" "[]"]
    example_group_children[of "\<lambda>fs. False"] a
  show ?thesis by simp
qed

text \<open>
  C8 as stated fails where it says that the aggregation step is offered the list of
  children only when it is non-empty: for a group whose only child is excluded, the
  recorded calls of \<^verbatim>\<open>add_features\<close> hold one call with no feature, and with an
  \<^verbatim>\<open>add_features\<close> that always makes a group feature the group contributes one.
\<close>

theorem empty_group_offered_counterexample:
  "fst (process_shape_list (example_env (\<lambda>fs. False)) (0, [])
          [example_header, Leaf example_excluded]) = []
   \<and> snd (snd (process_shape_list (example_env (\<lambda>fs. False)) (0, []) example_group_slide)) =
       (0, [(''Group'', 0)])
   \<and> fst (process_shape_list (example_env (\<lambda>fs. True)) (0, []) example_group_slide) =
       [Feature 1 (interval 0 0) [''group'' \<mapsto> PTrue] True]"
  by (simp add: example_shape_defs leaf_defs)

subsection \<open>The first element of a list\<close>

text \<open>
  C9: the element at index 0 of a shape list, at the top and in every nested list, is not
  processed. An empty or one-element list gives no feature and leaves the state as it
  was; the features and the final state of a list depend only on the elements after the
  first, which is returned as it was given.
\<close>

theorem process_shape_list_skips_first:
  "process_shape_list E st [] = ([], [], st)
   \<and> process_shape_list E st [x] = ([], [x], st)
   \<and> process_shape_list E st (x # xs) =
       (fst (for_shapes E st xs []), x # fst (snd (for_shapes E st xs [])),
        snd (snd (for_shapes E st xs [])))
   \<and> fst (process_shape_list E st (x # xs)) = fst (process_shape_list E st (y # xs))
   \<and> snd (snd (process_shape_list E st (x # xs))) = snd (snd (process_shape_list E st (y # xs)))
   \<and> fst (for_shapes E st (TreeList (x # g) # rest) fs) =
       fst (for_shapes E st (TreeList (y # g) # rest) fs)
   \<and> snd (snd (for_shapes E st (TreeList (x # g) # rest) fs)) =
       snd (snd (for_shapes E st (TreeList (y # g) # rest) fs))"
  by (simp add: split_def Let_def)

theorem process_shape_list_skips_first_witness:
  "process_shape_list (example_env (\<lambda>fs. False)) (0, []) [Leaf (example_leaves ! 0)] =
     ([], [Leaf (example_leaves ! 0)], (0, []))
   \<and> fst (process_shape_list (example_env (\<lambda>fs. False)) (0, [])
           [Leaf (example_leaves ! 0), Leaf (example_leaves ! 1)]) =
       fst (process_shape_list (example_env (\<lambda>fs. False)) (0, [])
           [Leaf example_excluded, Leaf (example_leaves ! 1)])
   \<and> map feature_id (fst (process_shape_list (example_env (\<lambda>fs. False)) (0, [])
           [Leaf (example_leaves ! 0), Leaf (example_leaves ! 1)])) = [1]"
proof -
  have "process_shape_list (example_env (\<lambda>fs. False)) (0, [])
           [Leaf (example_leaves ! 0), Leaf (example_leaves ! 1)] =
        (fst (for_shapes (example_env (\<lambda>fs. False)) (0, []) [Leaf (example_leaves ! 1)] []),
         Leaf (example_leaves ! 0)
           # fst (snd (for_shapes (example_env (\<lambda>fs. False)) (0, []) [Leaf (example_leaves ! 1)] [])),
         snd (snd (for_shapes (example_env (\<lambda>fs. False)) (0, []) [Leaf (example_leaves ! 1)] [])))"
    using process_shape_list_skips_first[of "example_env (\<lambda>fs. False)" "(0, [])"
      "Leaf (example_leaves ! 0)" "[Leaf (example_leaves ! 1)]"] by blast
  moreover have "map feature_id
      (fst (for_shapes (example_env (\<lambda>fs. False)) (0, []) [Leaf (example_leaves ! 1)] [])) = [1]"
    by (simp add: example_shape_defs leaf_defs)
  ultimately have "map feature_id (fst (process_shape_list (example_env (\<lambda>fs. False)) (0, [])
           [Leaf (example_leaves ! 0), Leaf (example_leaves ! 1)])) = [1]"
    by (simp only: fst_conv)
  with process_shape_list_skips_first[of "example_env (\<lambda>fs. False)" "(0, [])"
      "Leaf (example_leaves ! 0)" "[Leaf (example_leaves ! 1)]" "Leaf example_excluded"]
    process_shape_list_skips_first[of "example_env (\<lambda>fs. False)" "(0, [])"
      "Leaf (example_leaves ! 0)" "[]"]
  show ?thesis by blast
qed

end
